theory Spec2Isabelle
  imports Complex_Main "HOL-Library.Sublist"
begin

section \<open>Numeric model\<close>

text \<open>
  Samples, parameters and results are Python/NumPy double-precision floats in the source.
  They are modelled as \<^typ>\<open>real\<close>: every arithmetic operation is the exact one, \<open>np.pi\<close> is
  \<^term>\<open>pi\<close>, and rounding (including the final narrowing to 32-bit floats on write) is left
  out. Where NumPy yields \<open>inf\<close> or \<open>nan\<close> (a division by zero, a logarithm of a
  non-positive number) HOL yields some real number, so a statement about the value of such a
  sample carries the condition that excludes it.
\<close>

definition np_radians :: "real \<Rightarrow> real" where
  \<comment> \<open>\<open>np.radians(x)\<close>: degrees to radians.\<close>
  "np_radians x = x * pi / 180"

definition py_int :: "real \<Rightarrow> int" where
  \<comment> \<open>Python's \<open>int(x)\<close> on a float: truncation toward zero.\<close>
  "py_int x = (if 0 \<le> x then \<lfloor>x\<rfloor> else \<lceil>x\<rceil>)"

section \<open>Python values and errors\<close>

datatype error =
    TypeError string
  | ValueError string
  | AttributeError string

record datetime =
  year :: int
  month :: int
  day :: int
  hour :: int
  minute :: int
  second :: int
  microsecond :: int

text \<open>What a caller can pass as the \<open>date\<close> argument of \<open>earth_sun_dist\<close>.\<close>

datatype pyobj =
    PyDatetime datetime
  | PyDate int int int
  | PyStr string
  | PyFloat real
  | PyNone

definition is_leap :: "int \<Rightarrow> bool" where
  \<comment> \<open>\<open>datetime._is_leap\<close>\<close>
  "is_leap y = (y mod 4 = 0 \<and> (y mod 100 \<noteq> 0 \<or> y mod 400 = 0))"

definition days_in_month :: "int \<Rightarrow> int \<Rightarrow> int" where
  \<comment> \<open>\<open>datetime._days_in_month\<close>\<close>
  "days_in_month y m =
     (if m = 2 \<and> is_leap y then 29
      else [31, 28, 31, 30, 31, 30, 31, 31, 30, 31, 30, 31] ! nat (m - 1))"

definition days_before_month :: "int \<Rightarrow> int \<Rightarrow> int" where
  \<comment> \<open>\<open>datetime._days_before_month\<close>: days in the year before the first day of the month.\<close>
  "days_before_month y m =
     [0, 31, 59, 90, 120, 151, 181, 212, 243, 273, 304, 334] ! nat (m - 1)
       + (if m > 2 \<and> is_leap y then 1 else 0)"

definition tm_yday :: "datetime \<Rightarrow> int" where
  \<comment> \<open>\<open>date.timetuple().tm_yday\<close>: the day of the year, 1 on 1 January.\<close>
  "tm_yday d = days_before_month (year d) (month d) + day d"

definition valid_datetime :: "datetime \<Rightarrow> bool" where
  \<comment> \<open>The values a \<open>datetime.datetime\<close> object can hold (its constructor rejects all others).\<close>
  "valid_datetime d \<longleftrightarrow>
     1 \<le> year d \<and> year d \<le> 9999 \<and>
     1 \<le> month d \<and> month d \<le> 12 \<and>
     1 \<le> day d \<and> day d \<le> days_in_month (year d) (month d) \<and>
     0 \<le> hour d \<and> hour d \<le> 23 \<and>
     0 \<le> minute d \<and> minute d \<le> 59 \<and>
     0 \<le> second d \<and> second d \<le> 59 \<and>
     0 \<le> microsecond d \<and> microsecond d \<le> 999999"

definition py_repr_str :: "string \<Rightarrow> string" where
  \<comment> \<open>\<open>repr\<close> of a string without quotes or escapes in it.\<close>
  "py_repr_str s = [CHR 0x27] @ s @ [CHR 0x27]"

fun py_join :: "string \<Rightarrow> string list \<Rightarrow> string" where
  "py_join sep [] = []"
| "py_join sep [x] = x"
| "py_join sep (x # y # ys) = x @ sep @ py_join sep (y # ys)"

definition py_repr_list :: "string list \<Rightarrow> string" where
  \<comment> \<open>How an f-string renders a list of strings.\<close>
  "py_repr_list xs = ''['' @ py_join '', '' (map py_repr_str xs) @ '']''"

section \<open>au.py\<close>

definition formulas :: "string list" where
  "formulas = [''Meeus'', ''Spencer'', ''Mather'', ''ESA'', ''Duffie'']"

definition meeus :: "datetime \<Rightarrow> real" where
  "meeus date =
     (let (year, month) =
            (if month date \<le> 2 then (year date - 1, month date + 12)
             else (year date, month date));
          day = day date;
          ut = real_of_int (hour date) + (real_of_int (minute date) / 60)
                 + (real_of_int (second date) / 3600);
          a = py_int (real_of_int year / 100);
          b = 2 - a + py_int (real_of_int a / 4);
          jd = real_of_int (py_int (365.25 * real_of_int (year + 4716)))
                 + real_of_int (py_int (30.6001 * real_of_int (month + 1)))
                 + real_of_int day + (ut / 24.0) + real_of_int b - 1524.5;
          d = jd - 2451545.0;
          g = np_radians (357.529 + 0.98560028 * d)
      in 1.00014 - 0.01671 * cos g - 0.00014 * cos (2 * g))"

definition earth_sun_dist :: "pyobj \<Rightarrow> string \<Rightarrow> error + real" where
  "earth_sun_dist date formula =
     (case date of
        PyDatetime dt \<Rightarrow>
          (let doy = real_of_int (tm_yday dt) in
           if formula = ''Meeus'' then Inr (meeus dt)
           else if formula = ''Spencer'' then
             (let p = 2 * pi * (doy - 1) / 365
              in Inr ((1 / (1.000110 + 0.034221 * cos p + 0.001280 * sin p
                         + 0.000719 * cos (2 * p) + 0.000077 * sin (2 * p))) powr 0.5))
           else if formula = ''Mather'' then
             Inr (1 / (1 - 0.016729 * cos (0.9856 * (doy - 4))))
           else if formula = ''ESA'' then
             Inr (1 - 0.016729 * cos ((2 * pi) * (0.9856 * (doy - 4) / 360)))
           else if formula = ''Duffie'' then
             Inr (1 + 0.033 * cos (doy * 2 * pi / 365))
           else Inl (ValueError (''Formula must be one of '' @ py_repr_list formulas @ ''!'')))
      | _ \<Rightarrow> Inl (TypeError ''Date must be of type <class 'datetime.datetime'>!''))"

section \<open>Rasters and the file system\<close>

text \<open>
  The GDAL calls of the source are modelled on a world made of the files on disk and a log of
  the raster I/O performed. A raster file holds one band: its size, its georeferencing, its
  nodata marker (absent when \<open>GetNoDataValue\<close> returns \<open>None\<close>) and its samples, row by row.
  The source hands the marker it read to \<open>SetNoDataValue\<close> unchanged; what the binding does
  with an absent one is not written in the source, and is modelled as a target without marker.
  The nine conversions repeat the same sequence of calls around their formula, and each is
  written out below as the source has it.
\<close>

type_synonym ndarray = "real list list"

record dataset =
  RasterXSize :: nat
  RasterYSize :: nat
  GeoTransform :: "real list"
  Projection :: string
  NoDataValue :: "real option"
  ReadAsArray :: ndarray

datatype fs_entry = Raster dataset | NotRaster

datatype io_event = Opened string | Created string | Wrote string

record world =
  files :: "string \<rightharpoonup> fs_entry"
  io_log :: "io_event list"

type_synonym 'a io = "world \<Rightarrow> 'a \<times> world"

definition os_path_exists :: "world \<Rightarrow> string \<Rightarrow> bool" where
  "os_path_exists w path = (files w path \<noteq> None)"

definition gdal_Open :: "string \<Rightarrow> dataset option io" where
  \<comment> \<open>\<open>gdal.Open\<close> returns \<open>None\<close> for a path it cannot read as a raster.\<close>
  "gdal_Open path w =
     (case files w path of
        Some (Raster ds) \<Rightarrow> (Some ds, w\<lparr>io_log := io_log w @ [Opened path]\<rparr>)
      | _ \<Rightarrow> (None, w))"

definition drv_Create :: "string \<Rightarrow> nat \<Rightarrow> nat \<Rightarrow> world \<Rightarrow> world" where
  \<comment> \<open>\<open>drv.Create(path, xsize, ysize, 1, gdal.GDT_Float32)\<close>: a new raster of zeros.\<close>
  "drv_Create path xsize ysize w =
     w\<lparr>files := (files w)(path \<mapsto> Raster
            \<lparr>RasterXSize = xsize, RasterYSize = ysize, GeoTransform = [0, 1, 0, 0, 0, 1],
             Projection = [], NoDataValue = None,
             ReadAsArray = replicate ysize (replicate xsize 0)\<rparr>),
        io_log := io_log w @ [Created path]\<rparr>"

definition update_dataset :: "string \<Rightarrow> (dataset \<Rightarrow> dataset) \<Rightarrow> world \<Rightarrow> world" where
  "update_dataset path f w =
     (case files w path of
        Some (Raster ds) \<Rightarrow> w\<lparr>files := (files w)(path \<mapsto> Raster (f ds))\<rparr>
      | _ \<Rightarrow> w)"

definition create_target :: "string \<Rightarrow> dataset \<Rightarrow> real option \<Rightarrow> world \<Rightarrow> world" where
  \<comment> \<open>The block every conversion repeats between reading the source and computing: create
      the target, copy geotransform and projection, set the nodata marker.\<close>
  "create_target output_scene src_ds no_data w =
     (let w = drv_Create output_scene (RasterXSize src_ds) (RasterYSize src_ds) w;
          w = update_dataset output_scene (\<lambda>t. t\<lparr>GeoTransform := GeoTransform src_ds\<rparr>) w;
          w = update_dataset output_scene (\<lambda>t. t\<lparr>Projection := Projection src_ds\<rparr>) w;
          w = update_dataset output_scene (\<lambda>t. t\<lparr>NoDataValue := no_data\<rparr>) w
      in w)"

definition WriteArray :: "string \<Rightarrow> ndarray \<Rightarrow> world \<Rightarrow> world" where
  \<comment> \<open>\<open>trg_band.WriteArray(ar)\<close> followed by \<open>FlushCache\<close> and the release of the handles.\<close>
  "WriteArray path ar w =
     (update_dataset path (\<lambda>t. t\<lparr>ReadAsArray := ar\<rparr>) w)\<lparr>io_log := io_log w @ [Wrote path]\<rparr>"

definition np_map :: "(real \<Rightarrow> real) \<Rightarrow> ndarray \<Rightarrow> ndarray" where
  \<comment> \<open>A scalar expression applied to every sample of an array.\<close>
  "np_map f ar = map (map f) ar"

definition mask_nodata :: "ndarray \<Rightarrow> ndarray \<Rightarrow> real option \<Rightarrow> ndarray" where
  \<comment> \<open>\<open>trg_ar[src_ar == no_data] = no_data\<close>; comparing with \<open>None\<close> selects no cell.\<close>
  "mask_nodata trg_ar src_ar no_data =
     (case no_data of
        None \<Rightarrow> trg_ar
      | Some nd \<Rightarrow> map2 (map2 (\<lambda>t s. if s = nd then nd else t)) trg_ar src_ar)"

definition already_exists :: "string \<Rightarrow> error" where
  "already_exists output_scene = ValueError (output_scene @ '' already exists!'')"

definition no_dataset :: error where
  \<comment> \<open>\<open>src_ds.GetRasterBand(1)\<close> on the \<open>None\<close> that a failed \<open>gdal.Open\<close> returns.\<close>
  "no_dataset = AttributeError (py_repr_str ''NoneType'' @ '' object has no attribute ''
                                  @ py_repr_str ''GetRasterBand'')"

section \<open>radiance.py\<close>

definition radiance_gainbias ::
  "string \<Rightarrow> real \<Rightarrow> real \<Rightarrow> string \<Rightarrow> (error + unit) io" where
  "radiance_gainbias input_scene gain bias output_scene w =
     (if os_path_exists w output_scene then (Inl (already_exists output_scene), w)
      else case gdal_Open input_scene w of
        (None, w) \<Rightarrow> (Inl no_dataset, w)
      | (Some src_ds, w) \<Rightarrow>
          (let no_data = NoDataValue src_ds;
               src_ar = ReadAsArray src_ds;
               w = create_target output_scene src_ds no_data w;
               trg_ar = np_map (\<lambda>x. gain * x + bias) src_ar;
               trg_ar = mask_nodata trg_ar src_ar no_data
           in (Inr (), WriteArray output_scene trg_ar w)))"

definition scaling ::
  "string \<Rightarrow> real \<Rightarrow> real \<Rightarrow> real \<Rightarrow> real \<Rightarrow> string \<Rightarrow> (error + unit) io" where
  "scaling input_scene lmin lmax qcalmin qcalmax output_scene w =
     (if os_path_exists w output_scene then (Inl (already_exists output_scene), w)
      else case gdal_Open input_scene w of
        (None, w) \<Rightarrow> (Inl no_dataset, w)
      | (Some src_ds, w) \<Rightarrow>
          (let no_data = NoDataValue src_ds;
               src_ar = ReadAsArray src_ds;
               w = create_target output_scene src_ds no_data w;
               trg_ar = np_map (\<lambda>x. ((lmax - lmin) / (qcalmax - qcalmin)) * (x - qcalmin) + lmin)
                          src_ar;
               trg_ar = mask_nodata trg_ar src_ar no_data
           in (Inr (), WriteArray output_scene trg_ar w)))"

section \<open>reflectance.py\<close>

definition reflectance_gainbias ::
  "string \<Rightarrow> real \<Rightarrow> real \<Rightarrow> real \<Rightarrow> string \<Rightarrow> (error + unit) io" where
  "reflectance_gainbias input_scene gain bias sun_elev output_scene w =
     (if os_path_exists w output_scene then (Inl (already_exists output_scene), w)
      else case gdal_Open input_scene w of
        (None, w) \<Rightarrow> (Inl no_dataset, w)
      | (Some src_ds, w) \<Rightarrow>
          (let no_data = NoDataValue src_ds;
               src_ar = ReadAsArray src_ds;
               w = create_target output_scene src_ds no_data w;
               trg_ar = np_map (\<lambda>x. gain * x + bias) src_ar;
               trg_ar = np_map (\<lambda>t. t / sin (np_radians sun_elev)) trg_ar;
               trg_ar = mask_nodata trg_ar src_ar no_data
           in (Inr (), WriteArray output_scene trg_ar w)))"

definition ref ::
  "string \<Rightarrow> real \<Rightarrow> real \<Rightarrow> real \<Rightarrow> string \<Rightarrow> (error + unit) io" where
  "ref input_scene earth_sun_dist' sun_elev esun output_scene w =
     (if os_path_exists w output_scene then (Inl (already_exists output_scene), w)
      else case gdal_Open input_scene w of
        (None, w) \<Rightarrow> (Inl no_dataset, w)
      | (Some src_ds, w) \<Rightarrow>
          (let no_data = NoDataValue src_ds;
               src_ar = ReadAsArray src_ds;
               w = create_target output_scene src_ds no_data w;
               solar_zenith = 90 - sun_elev;
               trg_ar = np_map (\<lambda>x. (pi * x * earth_sun_dist'\<^sup>2) / esun
                                       * cos (np_radians solar_zenith)) src_ar;
               trg_ar = (if sun_elev \<noteq> 0
                         then np_map (\<lambda>t. t / sin (np_radians sun_elev)) trg_ar
                         else trg_ar);
               trg_ar = mask_nodata trg_ar src_ar no_data
           in (Inr (), WriteArray output_scene trg_ar w)))"

section \<open>brightness.py\<close>

definition toa_rad_to_toa_bright ::
  "string \<Rightarrow> real \<Rightarrow> real \<Rightarrow> string \<Rightarrow> (error + unit) io" where
  "toa_rad_to_toa_bright input_scene k1 k2 output_scene w =
     (if os_path_exists w output_scene then (Inl (already_exists output_scene), w)
      else case gdal_Open input_scene w of
        (None, w) \<Rightarrow> (Inl no_dataset, w)
      | (Some src_ds, w) \<Rightarrow>
          (let no_data = NoDataValue src_ds;
               src_ar = ReadAsArray src_ds;
               w = create_target output_scene src_ds no_data w;
               trg_ar = np_map (\<lambda>x. k2 / ln ((k1 / x) + 1)) src_ar;
               trg_ar = mask_nodata trg_ar src_ar no_data
           in (Inr (), WriteArray output_scene trg_ar w)))"

definition dn_to_toa_bright ::
  "string \<Rightarrow> real \<Rightarrow> real \<Rightarrow> real \<Rightarrow> real \<Rightarrow> string \<Rightarrow> (error + unit) io" where
  "dn_to_toa_bright input_scene gain bias k1 k2 output_scene w =
     (if os_path_exists w output_scene then (Inl (already_exists output_scene), w)
      else case gdal_Open input_scene w of
        (None, w) \<Rightarrow> (Inl no_dataset, w)
      | (Some src_ds, w) \<Rightarrow>
          (let no_data = NoDataValue src_ds;
               src_ar = ReadAsArray src_ds;
               w = create_target output_scene src_ds no_data w;
               rad_ar = np_map (\<lambda>x. (gain * x) + bias) src_ar;
               bri_ar = np_map (\<lambda>r. k2 / ln ((k1 / r) + 1)) rad_ar;
               bri_ar = mask_nodata bri_ar src_ar no_data
           in (Inr (), WriteArray output_scene bri_ar w)))"

section \<open>toar.py\<close>

definition toa_radiance ::
  "string \<Rightarrow> real \<Rightarrow> real \<Rightarrow> string \<Rightarrow> (error + unit) io" where
  "toa_radiance input_scene gain bias output_scene w =
     (if os_path_exists w output_scene then (Inl (already_exists output_scene), w)
      else case gdal_Open input_scene w of
        (None, w) \<Rightarrow> (Inl no_dataset, w)
      | (Some src_ds, w) \<Rightarrow>
          (let no_data = NoDataValue src_ds;
               src_ar = ReadAsArray src_ds;
               w = create_target output_scene src_ds no_data w;
               trg_ar = np_map (\<lambda>x. gain * x + bias) src_ar;
               trg_ar = mask_nodata trg_ar src_ar no_data
           in (Inr (), WriteArray output_scene trg_ar w)))"

definition toa_reflectance ::
  "string \<Rightarrow> real \<Rightarrow> real \<Rightarrow> string \<Rightarrow> (error + unit) io" where
  "toa_reflectance input_scene gain bias output_scene w =
     (if os_path_exists w output_scene then (Inl (already_exists output_scene), w)
      else case gdal_Open input_scene w of
        (None, w) \<Rightarrow> (Inl no_dataset, w)
      | (Some src_ds, w) \<Rightarrow>
          (let no_data = NoDataValue src_ds;
               src_ar = ReadAsArray src_ds;
               w = create_target output_scene src_ds no_data w;
               trg_ar = np_map (\<lambda>x. gain * x + bias) src_ar;
               trg_ar = mask_nodata trg_ar src_ar no_data
           in (Inr (), WriteArray output_scene trg_ar w)))"

definition toa_brightness ::
  "string \<Rightarrow> real \<Rightarrow> real \<Rightarrow> string \<Rightarrow> (error + unit) io" where
  "toa_brightness input_scene k1 k2 output_scene w =
     (if os_path_exists w output_scene then (Inl (already_exists output_scene), w)
      else case gdal_Open input_scene w of
        (None, w) \<Rightarrow> (Inl no_dataset, w)
      | (Some src_ds, w) \<Rightarrow>
          (let no_data = NoDataValue src_ds;
               src_ar = ReadAsArray src_ds;
               w = create_target output_scene src_ds no_data w;
               trg_ar = np_map (\<lambda>x. k2 / ln ((k1 / x) + 1)) src_ar;
               trg_ar = mask_nodata trg_ar src_ar no_data
           in (Inr (), WriteArray output_scene trg_ar w)))"

section \<open>The conversions as one family\<close>

text \<open>
  The nine entry points together with their scalar parameters, so that a statement can range
  over every conversion; \<open>call\<close> dispatches to the function of the source.
\<close>

datatype conversion =
    Radiance_gainbias real real
  | Radiance_scaling real real real real
  | Reflectance_gainbias real real real
  | Reflectance_ref real real real
  | Brightness_toa_rad_to_toa_bright real real
  | Brightness_dn_to_toa_bright real real real real
  | Toar_toa_radiance real real
  | Toar_toa_reflectance real real
  | Toar_toa_brightness real real

fun call :: "conversion \<Rightarrow> string \<Rightarrow> string \<Rightarrow> (error + unit) io" where
  "call (Radiance_gainbias gain bias) i out = radiance_gainbias i gain bias out"
| "call (Radiance_scaling lmin lmax qcalmin qcalmax) i out = scaling i lmin lmax qcalmin qcalmax out"
| "call (Reflectance_gainbias gain bias sun_elev) i out = reflectance_gainbias i gain bias sun_elev out"
| "call (Reflectance_ref esd sun_elev esun) i out = ref i esd sun_elev esun out"
| "call (Brightness_toa_rad_to_toa_bright k1 k2) i out = toa_rad_to_toa_bright i k1 k2 out"
| "call (Brightness_dn_to_toa_bright gain bias k1 k2) i out = dn_to_toa_bright i gain bias k1 k2 out"
| "call (Toar_toa_radiance gain bias) i out = toa_radiance i gain bias out"
| "call (Toar_toa_reflectance gain bias) i out = toa_reflectance i gain bias out"
| "call (Toar_toa_brightness k1 k2) i out = toa_brightness i k1 k2 out"

section \<open>The specification's band transform\<close>

text \<open>
  These two definitions follow the specification, not the source. \<open>spec_formula\<close> is the
  per-sample formula the specification gives for each conversion; \<open>band_transform\<close> is its
  shared contract: refuse an existing destination, read the source band, apply the formula to
  every sample, put the nodata marker back wherever the source sample equals it, and write a
  new raster with the source's size, georeferencing and nodata marker.
\<close>

fun spec_formula :: "conversion \<Rightarrow> real \<Rightarrow> real" where
  "spec_formula (Radiance_gainbias gain bias) x = gain * x + bias"
| "spec_formula (Radiance_scaling lmin lmax qcalmin qcalmax) x =
     ((lmax - lmin) / (qcalmax - qcalmin)) * (x - qcalmin) + lmin"
| "spec_formula (Reflectance_gainbias gain bias sun_elev) x =
     (gain * x + bias) / sin (np_radians sun_elev)"
| "spec_formula (Reflectance_ref esd sun_elev esun) x =
     (let solar_zenith = 90 - sun_elev;
          target = (pi * x * esd\<^sup>2 / esun) * cos (np_radians solar_zenith)
      in if sun_elev \<noteq> 0 then target / sin (np_radians sun_elev) else target)"
| "spec_formula (Brightness_toa_rad_to_toa_bright k1 k2) x = k2 / ln ((k1 / x) + 1)"
| "spec_formula (Brightness_dn_to_toa_bright gain bias k1 k2) x =
     (let radiance = gain * x + bias in k2 / ln ((k1 / radiance) + 1))"
| "spec_formula (Toar_toa_radiance gain bias) x = gain * x + bias"
| "spec_formula (Toar_toa_reflectance gain bias) x = gain * x + bias"
| "spec_formula (Toar_toa_brightness k1 k2) x = k2 / ln ((k1 / x) + 1)"

definition masked :: "(real \<Rightarrow> real) \<Rightarrow> real option \<Rightarrow> real \<Rightarrow> real" where
  "masked f no_data x = (if no_data = Some x then x else f x)"

definition band_transform :: "(real \<Rightarrow> real) \<Rightarrow> string \<Rightarrow> string \<Rightarrow> (error + unit) io" where
  "band_transform f input_scene output_scene w =
     (if os_path_exists w output_scene then (Inl (already_exists output_scene), w)
      else case files w input_scene of
        Some (Raster src_ds) \<Rightarrow>
          (Inr (),
           \<lparr>files = (files w)(output_scene \<mapsto> Raster
               (src_ds\<lparr>ReadAsArray := map (map (masked f (NoDataValue src_ds))) (ReadAsArray src_ds)\<rparr>)),
            io_log = io_log w @ [Opened input_scene, Created output_scene, Wrote output_scene]\<rparr>)
      | _ \<Rightarrow> (Inl no_dataset, w))"

section \<open>The end-to-end scenario\<close>

text \<open>
  The source band of the specification's scenario, \<open>[[10, 20], [nodata, 30]]\<close> with
  nodata \<open>-1\<close>, as the only file of a world.
\<close>

definition scenario_band :: dataset where
  "scenario_band =
     \<lparr>RasterXSize = 2, RasterYSize = 2, GeoTransform = [0, 30, 0, 0, 0, - 30],
      Projection = ''EPSG:32633'', NoDataValue = Some (- 1),
      ReadAsArray = [[10, 20], [- 1, 30]]\<rparr>"

definition world_of :: "dataset \<Rightarrow> world" where
  "world_of ds = \<lparr>files = [''source.tif'' \<mapsto> Raster ds], io_log = []\<rparr>"

section \<open>The source refines the specification's band transform\<close>

lemma mask_nodata_np_map:
  "mask_nodata (np_map f ar) ar no_data = map (map (masked f no_data)) ar"
proof (cases no_data)
  case None
  then show ?thesis by (simp add: mask_nodata_def np_map_def masked_def)
next
  case (Some nd)
  have row: "map2 (\<lambda>t s. if s = nd then nd else t) (map f r) r = map (masked f (Some nd)) r" for r
    by (induction r) (simp_all add: masked_def)
  have "map2 (map2 (\<lambda>t s. if s = nd then nd else t)) (map (map f) ar) ar
          = map (map (masked f (Some nd))) ar"
    by (induction ar) (simp_all add: row)
  with Some show ?thesis by (simp add: mask_nodata_def np_map_def)
qed

lemma np_map_comp: "np_map g (np_map f ar) = np_map (g \<circ> f) ar"
  by (simp add: np_map_def)

lemma write_target:
  assumes "files w input_scene = Some (Raster src_ds)"
  shows "WriteArray output_scene ar
           (create_target output_scene src_ds (NoDataValue src_ds)
              (w\<lparr>io_log := io_log w @ [Opened input_scene]\<rparr>))
         = \<lparr>files = (files w)(output_scene \<mapsto> Raster (src_ds\<lparr>ReadAsArray := ar\<rparr>)),
            io_log = io_log w @ [Opened input_scene, Created output_scene, Wrote output_scene]\<rparr>"
  by (cases w, cases src_ds)
     (simp add: WriteArray_def create_target_def drv_Create_def update_dataset_def Let_def)

lemma radiance_gainbias_refines:
  "radiance_gainbias i gain bias out w = band_transform (\<lambda>x. gain * x + bias) i out w"
  by (auto simp add: radiance_gainbias_def band_transform_def gdal_Open_def Let_def
      mask_nodata_np_map write_target split: option.splits fs_entry.splits)

lemma scaling_refines:
  "scaling i lmin lmax qcalmin qcalmax out w =
     band_transform (\<lambda>x. ((lmax - lmin) / (qcalmax - qcalmin)) * (x - qcalmin) + lmin) i out w"
  by (auto simp add: scaling_def band_transform_def gdal_Open_def Let_def
      mask_nodata_np_map write_target split: option.splits fs_entry.splits)

lemma reflectance_gainbias_refines:
  "reflectance_gainbias i gain bias sun_elev out w =
     band_transform (\<lambda>x. (gain * x + bias) / sin (np_radians sun_elev)) i out w"
  by (auto simp add: reflectance_gainbias_def band_transform_def gdal_Open_def Let_def
      np_map_comp comp_def mask_nodata_np_map write_target split: option.splits fs_entry.splits)

lemma ref_refines:
  "ref i esd sun_elev esun out w =
     band_transform (\<lambda>x. if sun_elev \<noteq> 0
        then (pi * x * esd\<^sup>2) / esun * cos (np_radians (90 - sun_elev)) / sin (np_radians sun_elev)
        else (pi * x * esd\<^sup>2) / esun * cos (np_radians (90 - sun_elev))) i out w"
  by (cases "sun_elev = 0")
     (auto simp add: ref_def band_transform_def gdal_Open_def Let_def
      np_map_comp comp_def mask_nodata_np_map write_target split: option.splits fs_entry.splits)

lemma toa_rad_to_toa_bright_refines:
  "toa_rad_to_toa_bright i k1 k2 out w = band_transform (\<lambda>x. k2 / ln ((k1 / x) + 1)) i out w"
  by (auto simp add: toa_rad_to_toa_bright_def band_transform_def gdal_Open_def Let_def
      mask_nodata_np_map write_target split: option.splits fs_entry.splits)

lemma dn_to_toa_bright_refines:
  "dn_to_toa_bright i gain bias k1 k2 out w =
     band_transform (\<lambda>x. k2 / ln ((k1 / (gain * x + bias)) + 1)) i out w"
  by (auto simp add: dn_to_toa_bright_def band_transform_def gdal_Open_def Let_def
      np_map_comp comp_def mask_nodata_np_map write_target split: option.splits fs_entry.splits)

lemma toa_radiance_refines:
  "toa_radiance i gain bias out w = band_transform (\<lambda>x. gain * x + bias) i out w"
  by (auto simp add: toa_radiance_def band_transform_def gdal_Open_def Let_def
      mask_nodata_np_map write_target split: option.splits fs_entry.splits)

lemma toa_reflectance_refines:
  "toa_reflectance i gain bias out w = band_transform (\<lambda>x. gain * x + bias) i out w"
  by (auto simp add: toa_reflectance_def band_transform_def gdal_Open_def Let_def
      mask_nodata_np_map write_target split: option.splits fs_entry.splits)

lemma toa_brightness_refines:
  "toa_brightness i k1 k2 out w = band_transform (\<lambda>x. k2 / ln ((k1 / x) + 1)) i out w"
  by (auto simp add: toa_brightness_def band_transform_def gdal_Open_def Let_def
      mask_nodata_np_map write_target split: option.splits fs_entry.splits)

lemmas refines = radiance_gainbias_refines scaling_refines reflectance_gainbias_refines
  ref_refines toa_rad_to_toa_bright_refines dn_to_toa_bright_refines toa_radiance_refines
  toa_reflectance_refines toa_brightness_refines

lemma spec_formula_fun:
  "spec_formula (Radiance_gainbias gain bias) = (\<lambda>x. gain * x + bias)"
  "spec_formula (Radiance_scaling lmin lmax qcalmin qcalmax) =
     (\<lambda>x. ((lmax - lmin) / (qcalmax - qcalmin)) * (x - qcalmin) + lmin)"
  "spec_formula (Reflectance_gainbias gain bias sun_elev) =
     (\<lambda>x. (gain * x + bias) / sin (np_radians sun_elev))"
  "spec_formula (Reflectance_ref esd sun_elev esun) =
     (\<lambda>x. if sun_elev \<noteq> 0
        then (pi * x * esd\<^sup>2) / esun * cos (np_radians (90 - sun_elev)) / sin (np_radians sun_elev)
        else (pi * x * esd\<^sup>2) / esun * cos (np_radians (90 - sun_elev)))"
  "spec_formula (Brightness_toa_rad_to_toa_bright k1 k2) = (\<lambda>x. k2 / ln ((k1 / x) + 1))"
  "spec_formula (Brightness_dn_to_toa_bright gain bias k1 k2) =
     (\<lambda>x. k2 / ln ((k1 / (gain * x + bias)) + 1))"
  "spec_formula (Toar_toa_radiance gain bias) = (\<lambda>x. gain * x + bias)"
  "spec_formula (Toar_toa_reflectance gain bias) = (\<lambda>x. gain * x + bias)"
  "spec_formula (Toar_toa_brightness k1 k2) = (\<lambda>x. k2 / ln ((k1 / x) + 1))"
  by (rule ext, simp add: Let_def)+

lemma call_refines: "call c i out w = band_transform (spec_formula c) i out w"
  by (cases c) (simp_all only: call.simps refines spec_formula_fun)

lemma band_transform_exists:
  "os_path_exists w out \<Longrightarrow> band_transform f i out w = (Inl (already_exists out), w)"
  by (simp add: band_transform_def)


section \<open>Day of the year and the distance formulas\<close>

lemma tm_yday_range:
  assumes "valid_datetime d"
  shows "1 \<le> tm_yday d \<and> tm_yday d \<le> 366"
proof -
  from assms have m: "1 \<le> month d" "month d \<le> 12"
    and dd: "1 \<le> day d" "day d \<le> days_in_month (year d) (month d)"
    by (simp_all add: valid_datetime_def)
  from m have "month d = 1 \<or> month d = 2 \<or> month d = 3 \<or> month d = 4 \<or> month d = 5
      \<or> month d = 6 \<or> month d = 7 \<or> month d = 8 \<or> month d = 9 \<or> month d = 10
      \<or> month d = 11 \<or> month d = 12"
    by arith
  then show ?thesis using dd
    by (elim disjE)
       (simp_all add: tm_yday_def days_before_month_def days_in_month_def split: if_splits)
qed

lemma meeus_arith:
  fixes c c2 :: real
  assumes "- 1 \<le> c" "c \<le> 1" "- 1 \<le> c2" "c2 \<le> 1"
  shows "0.98 \<le> 1.00014 - 0.01671 * c - 0.00014 * c2
       \<and> 1.00014 - 0.01671 * c - 0.00014 * c2 \<le> 1.02"
  using assms by simp

lemma meeus_form: "\<exists>g. meeus d = 1.00014 - 0.01671 * cos g - 0.00014 * cos (2 * g)"
  unfolding meeus_def Let_def by (simp split: prod.split) blast

lemma meeus_bounds: "0.98 \<le> meeus d \<and> meeus d \<le> 1.02"
proof -
  obtain g where "meeus d = 1.00014 - 0.01671 * cos g - 0.00014 * cos (2 * g)"
    using meeus_form by blast
  then show ?thesis using meeus_arith [of "cos g" "cos (2 * g)"] by simp
qed

lemma spencer_arith:
  fixes c s c2 s2 :: real
  assumes "- 1 \<le> c" "c \<le> 1" "- 1 \<le> c2" "c2 \<le> 1" "- 1 \<le> s" "s \<le> 1" "- 1 \<le> s2" "s2 \<le> 1"
  shows "0.98 \<le> (1 / (1.000110 + 0.034221 * c + 0.001280 * s + 0.000719 * c2
                          + 0.000077 * s2)) powr 0.5"
    and "(1 / (1.000110 + 0.034221 * c + 0.001280 * s + 0.000719 * c2
                 + 0.000077 * s2)) powr 0.5 \<le> 1.02"
proof -
  define den where "den = 1.000110 + 0.034221 * c + 0.001280 * s + 0.000719 * c2 + 0.000077 * s2"
  have lo: "0.963813 \<le> den" and hi: "den \<le> 1.036407"
    using assms unfolding den_def by simp_all
  have pos: "0 < den" using lo by simp
  have sq: "(1 / den) powr 0.5 = sqrt (1 / den)"
    using pos by (simp add: powr_half_sqrt)
  have "0.98\<^sup>2 \<le> 1 / den" using pos hi by (simp add: field_simps power2_eq_square)
  then have "sqrt (0.98\<^sup>2) \<le> sqrt (1 / den)" by (rule real_sqrt_le_mono)
  then have a: "0.98 \<le> sqrt (1 / den)" by simp
  have "1 / den \<le> 1.02\<^sup>2" using pos lo by (simp add: field_simps power2_eq_square)
  then have "sqrt (1 / den) \<le> sqrt (1.02\<^sup>2)" by (rule real_sqrt_le_mono)
  then have b: "sqrt (1 / den) \<le> 1.02" by simp
  show "0.98 \<le> (1 / (1.000110 + 0.034221 * c + 0.001280 * s + 0.000719 * c2
                          + 0.000077 * s2)) powr 0.5"
    using a sq unfolding den_def by simp
  show "(1 / (1.000110 + 0.034221 * c + 0.001280 * s + 0.000719 * c2
                 + 0.000077 * s2)) powr 0.5 \<le> 1.02"
    using b sq unfolding den_def by simp
qed

lemma mather_arith:
  fixes c :: real
  assumes "- 1 \<le> c" "c \<le> 1"
  shows "0.98 \<le> 1 / (1 - 0.016729 * c) \<and> 1 / (1 - 0.016729 * c) \<le> 1.02"
proof -
  have pos: "0 < 1 - 0.016729 * c" using assms by simp
  show ?thesis using assms pos by (simp add: field_simps)
qed

lemma esa_arith:
  fixes c :: real
  assumes "- 1 \<le> c" "c \<le> 1"
  shows "0.98 \<le> 1 - 0.016729 * c \<and> 1 - 0.016729 * c \<le> 1.02"
  using assms by simp

section \<open>Reading the written raster\<close>



section \<open>Claims about the conversions\<close>












text \<open>
  Claim C6. Every conversion called with a destination path that exists returns the
  already-exists error and leaves the world as it was: no file is created or changed, and
  the I/O log gains no entry, so that nothing was opened, read or written.
\<close>

theorem existing_destination_refused:
  assumes "os_path_exists w output_scene"
  shows "call c input_scene output_scene w
           = (Inl (ValueError (output_scene @ '' already exists!'')), w)"
  using assms by (simp add: call_refines band_transform_def already_exists_def)

theorem existing_destination_refused_witness:
  "os_path_exists (world_of scenario_band) ''source.tif''
   \<and> call (Radiance_gainbias 0.1 5) ''source.tif'' ''source.tif'' (world_of scenario_band)
       = (Inl (ValueError ''source.tif already exists!''), world_of scenario_band)"
proof -
  have h: "os_path_exists (world_of scenario_band) ''source.tif''"
    by (simp add: os_path_exists_def world_of_def)
  from h existing_destination_refused [OF h, of "Radiance_gainbias 0.1 5" "''source.tif''"]
  show ?thesis by simp
qed

text \<open>
  Claim C10. \<open>toar.toa_reflectance\<close> returns the same result and leaves the same world as
  \<open>toar.toa_radiance\<close> and as \<open>radiance.gainbias\<close> with the same arguments: it is the band
  transform of \<open>gain * source + bias\<close>, with no division by the sine of a sun elevation (it
  takes none).
\<close>

theorem toa_reflectance_is_gainbias:
  "toa_reflectance input_scene gain bias output_scene w
     = toa_radiance input_scene gain bias output_scene w
   \<and> toa_reflectance input_scene gain bias output_scene w
     = radiance_gainbias input_scene gain bias output_scene w
   \<and> toa_reflectance input_scene gain bias output_scene w
     = band_transform (\<lambda>source. gain * source + bias) input_scene output_scene w"
  by (simp add: toa_reflectance_refines toa_radiance_refines radiance_gainbias_refines)


section \<open>Claims about the Earth-Sun distance\<close>

text \<open>
  The formulas of Meeus, Spencer, Mather and ESA stay within 0.98 and 1.02 astronomical
  units on every date.
\<close>

lemma earth_sun_dist_bounds_four:
  assumes "formula \<in> {''Meeus'', ''Spencer'', ''Mather'', ''ESA''}"
  shows "\<exists>r. earth_sun_dist (PyDatetime dt) formula = Inr r \<and> 0.98 \<le> r \<and> r \<le> 1.02"
proof -
  consider "formula = ''Meeus''" | "formula = ''Spencer''" | "formula = ''Mather''"
    | "formula = ''ESA''"
    using assms by blast
  then show ?thesis
  proof cases
    case 1
    then show ?thesis using meeus_bounds [of dt] by (simp add: earth_sun_dist_def)
  next
    case 2
    define p where "p = 2 * pi * (real_of_int (tm_yday dt) - 1) / 365"
    have "earth_sun_dist (PyDatetime dt) formula =
        Inr ((1 / (1.000110 + 0.034221 * cos p + 0.001280 * sin p
                         + 0.000719 * cos (2 * p) + 0.000077 * sin (2 * p))) powr 0.5)"
      using 2 by (simp add: earth_sun_dist_def p_def Let_def)
    then show ?thesis
      using spencer_arith [of "cos p" "cos (2 * p)" "sin p" "sin (2 * p)"] by simp
  next
    case 3
    then show ?thesis
      using mather_arith [of "cos (0.9856 * (real_of_int (tm_yday dt) - 4))"]
      by (simp add: earth_sun_dist_def)
  next
    case 4
    then show ?thesis
      using esa_arith [of "cos ((2 * pi) * (0.9856 * (real_of_int (tm_yday dt) - 4) / 360))"]
      by (simp add: earth_sun_dist_def)
  qed
qed

text \<open>
  Claim C7 says that all five formulas return a value between 0.98 and 1.02. The Duffie
  branch does not: on 31 December 2021, day 365 of the year, it returns 1.033.
\<close>

theorem duffie_out_of_bounds:
  "valid_datetime \<lparr>year = 2021, month = 12, day = 31, hour = 0, minute = 0, second = 0,
                    microsecond = 0\<rparr>
   \<and> tm_yday \<lparr>year = 2021, month = 12, day = 31, hour = 0, minute = 0, second = 0,
               microsecond = 0\<rparr> = 365
   \<and> earth_sun_dist (PyDatetime \<lparr>year = 2021, month = 12, day = 31, hour = 0, minute = 0,
                                   second = 0, microsecond = 0\<rparr>) ''Duffie'' = Inr 1.033
   \<and> \<not> (1.033 \<le> (1.02 :: real))"
  by (simp add: earth_sun_dist_def tm_yday_def days_before_month_def days_in_month_def
      is_leap_def valid_datetime_def)

text \<open>
  Claim C8. On a valid date with day of the year \<open>doy\<close> (between 1 and 366), the Mather
  formula returns \<open>1 / (1 - 0.016729 * cos (0.9856 * (doy - 4)))\<close>, the cosine taken of the
  raw product.
\<close>

theorem mather_formula:
  assumes "valid_datetime dt"
  shows "\<exists>doy. doy = tm_yday dt \<and> 1 \<le> doy \<and> doy \<le> 366
           \<and> earth_sun_dist (PyDatetime dt) ''Mather''
               = Inr (1 / (1 - 0.016729 * cos (0.9856 * (real_of_int doy - 4))))"
  using tm_yday_range [OF assms] by (simp add: earth_sun_dist_def)

theorem mather_formula_witness:
  "earth_sun_dist (PyDatetime \<lparr>year = 2020, month = 3, day = 1, hour = 10, minute = 30,
                                second = 0, microsecond = 0\<rparr>) ''Mather''
     = Inr (1 / (1 - 0.016729 * cos (0.9856 * 57)))"
proof -
  let ?dt = "\<lparr>year = 2020, month = 3, day = 1, hour = 10, minute = 30, second = 0,
              microsecond = 0\<rparr>"
  have v: "valid_datetime ?dt"
    by (simp add: valid_datetime_def days_in_month_def is_leap_def)
  have d: "tm_yday ?dt = 61" by (simp add: tm_yday_def days_before_month_def is_leap_def)
  from mather_formula [OF v] d show ?thesis by simp
qed

text \<open>
  The argument is not converted to radians: on 5 January the result differs from the one
  the converted argument would give.
\<close>

lemma mather_injective:
  fixes c c' :: real
  assumes "- 1 \<le> c" "c \<le> 1" "- 1 \<le> c'" "c' \<le> 1" "c \<noteq> c'"
  shows "1 / (1 - 0.016729 * c) \<noteq> 1 / (1 - 0.016729 * c')"
proof -
  have p: "0 < 1 - 0.016729 * c" "0 < 1 - 0.016729 * c'" using assms by simp_all
  show ?thesis using p assms(5) by (simp add: frac_eq_eq)
qed

lemma mather_argument_not_converted:
  "earth_sun_dist (PyDatetime \<lparr>year = 2021, month = 1, day = 5, hour = 0, minute = 0,
                                second = 0, microsecond = 0\<rparr>) ''Mather''
     \<noteq> Inr (1 / (1 - 0.016729 * cos (np_radians (0.9856 * (5 - 4)))))"
proof -
  have lt: "np_radians 0.9856 < 0.9856"
    using pi_less_4 by (simp add: np_radians_def)
  have "cos (0.9856 :: real) < cos (np_radians 0.9856)"
    using lt pi_ge_two by (intro cos_monotone_0_pi) (simp_all add: np_radians_def)
  then have ne: "cos (0.9856 :: real) \<noteq> cos (np_radians 0.9856)" by simp
  have "1 / (1 - 0.016729 * cos (0.9856 :: real)) \<noteq> 1 / (1 - 0.016729 * cos (np_radians 0.9856))"
    using ne by (intro mather_injective) simp_all
  then show ?thesis
    by (simp add: earth_sun_dist_def tm_yday_def days_before_month_def)
qed

lemma formulas_in_message:
  "\<forall>name \<in> set formulas.
     sublist name ''Formula must be one of ['Meeus', 'Spencer', 'Mather', 'ESA', 'Duffie']!''"
  by (simp add: formulas_def sublist_code)

text \<open>
  Claim C9. On a date-time and a formula name outside the five, \<open>earth_sun_dist\<close> raises
  \<open>ValueError\<close> with a message that contains each of the five names; on a date argument that
  is not a date-time it raises \<open>TypeError\<close>, whatever the formula. Neither case returns a
  number.
\<close>

theorem earth_sun_dist_errors:
  "(formula \<notin> set formulas \<longrightarrow>
      earth_sun_dist (PyDatetime dt) formula
        = Inl (ValueError ''Formula must be one of ['Meeus', 'Spencer', 'Mather', 'ESA', 'Duffie']!''))
   \<and> (\<forall>name \<in> set formulas.
        sublist name ''Formula must be one of ['Meeus', 'Spencer', 'Mather', 'ESA', 'Duffie']!'')
   \<and> ((\<forall>d. date \<noteq> PyDatetime d) \<longrightarrow>
        earth_sun_dist date formula
          = Inl (TypeError ''Date must be of type <class 'datetime.datetime'>!''))"
proof (intro conjI impI)
  assume "formula \<notin> set formulas"
  then show "earth_sun_dist (PyDatetime dt) formula
        = Inl (ValueError ''Formula must be one of ['Meeus', 'Spencer', 'Mather', 'ESA', 'Duffie']!'')"
    by (simp add: earth_sun_dist_def formulas_def py_repr_list_def py_repr_str_def)
next
  show "\<forall>name \<in> set formulas.
        sublist name ''Formula must be one of ['Meeus', 'Spencer', 'Mather', 'ESA', 'Duffie']!''"
    by (rule formulas_in_message)
next
  assume "\<forall>d. date \<noteq> PyDatetime d"
  then show "earth_sun_dist date formula
          = Inl (TypeError ''Date must be of type <class 'datetime.datetime'>!'')"
    by (cases date) (simp_all add: earth_sun_dist_def)
qed

theorem earth_sun_dist_errors_witness:
  "''Landsat'' \<notin> set formulas
   \<and> earth_sun_dist (PyDatetime \<lparr>year = 2020, month = 3, day = 1, hour = 10, minute = 30,
                                   second = 0, microsecond = 0\<rparr>) ''Landsat''
       = Inl (ValueError ''Formula must be one of ['Meeus', 'Spencer', 'Mather', 'ESA', 'Duffie']!'')
   \<and> sublist ''Duffie'' ''Formula must be one of ['Meeus', 'Spencer', 'Mather', 'ESA', 'Duffie']!''
   \<and> earth_sun_dist (PyDate 2020 3 1) ''Meeus''
       = Inl (TypeError ''Date must be of type <class 'datetime.datetime'>!'')"
proof -
  let ?dt = "\<lparr>year = 2020, month = 3, day = 1, hour = 10, minute = 30, second = 0,
              microsecond = 0\<rparr>"
  have h1: "''Landsat'' \<notin> set formulas" by (simp add: formulas_def)
  have h2: "''Duffie'' \<in> set formulas" by (simp add: formulas_def)
  have h3: "\<forall>d. PyDate 2020 3 1 \<noteq> PyDatetime d" by simp
  from earth_sun_dist_errors [of "''Landsat''" ?dt "PyDate 2020 3 1"] h1
  have a: "earth_sun_dist (PyDatetime ?dt) ''Landsat''
       = Inl (ValueError ''Formula must be one of ['Meeus', 'Spencer', 'Mather', 'ESA', 'Duffie']!'')"
    by blast
  from earth_sun_dist_errors [of "''Landsat''" ?dt "PyDate 2020 3 1"] h2
  have b: "sublist ''Duffie'' ''Formula must be one of ['Meeus', 'Spencer', 'Mather', 'ESA', 'Duffie']!''"
    by blast
  from earth_sun_dist_errors [of "''Meeus''" ?dt "PyDate 2020 3 1"] h3
  have c: "earth_sun_dist (PyDate 2020 3 1) ''Meeus''
       = Inl (TypeError ''Date must be of type <class 'datetime.datetime'>!'')"
    by blast
  from h1 a b c show ?thesis by blast
qed

end
